theory Spec2Isabelle
  imports Complex_Main "HOL-Library.Word" "HOL-Library.Signed_Division" "HOL-Library.Log_Nat"
begin

unbundle bit_operations_syntax

section \<open>Machine numbers of the money package\<close>

text \<open>
  The package \<open>money\<close> stores an amount as a Go \<open>int64\<close> and computes some results through
  \<open>float64\<close>. An \<open>int64\<close> is a 64-bit word: \<open>+\<close>, \<open>-\<close> and \<open>*\<close> wrap around, \<open>sint\<close> reads the
  two's complement value. Go's \<open>int\<close> is taken at its 64-bit width (amd64, arm64), so the
  conversions \<open>int64(g)\<close> and \<open>int(c.guard)\<close> are the identity.
\<close>

type_synonym int64 = "64 word"
type_synonym uint8 = "8 word"

definition MinInt64 :: int64 where
  "MinInt64 = word_of_int (- (2 ^ 63))"

definition MaxInt64 :: int64 where
  "MaxInt64 = word_of_int (2 ^ 63 - 1)"

text \<open>
  Go's remainder \<open>%\<close> has the sign of the dividend (\<open>smod\<close>); a zero divisor is a run-time
  panic. The remainder of \<open>MinInt64\<close> by \<open>-1\<close> is 0.
\<close>

datatype panic = DivideByZero

definition go_rem :: "int64 \<Rightarrow> int64 \<Rightarrow> panic + int64" where
  "go_rem a b = (if b = 0 then Inl DivideByZero else Inr (word_of_int (sint a smod sint b)))"

subsection \<open>float64\<close>

text \<open>
  A \<open>float64\<close> is NaN, an infinity with its sign (\<open>Inf True\<close> is the negative one) or a
  finite binary64 number, kept as the rational it denotes. The two zeros are one value: the
  program reads floats only through comparisons, \<open>math.Floor\<close> and the conversion to
  \<open>int64\<close>, none of which tells them apart, and every divisor that can be zero is the
  conversion of an integer, which is \<open>+0\<close>. Every arithmetic operation rounds its exact result
  once, to the nearest binary64 number, ties to even (no fused multiply-add).
\<close>

datatype float64 = NaN | Inf bool | Finite rat

definition pow2 :: "int \<Rightarrow> rat" where
  "pow2 e = (if 0 \<le> e then 2 ^ nat e else 1 / 2 ^ nat (- e))"

text \<open>\<open>ilog2 q\<close> is the integer part of the binary logarithm of a positive rational.\<close>

definition ilog2 :: "rat \<Rightarrow> int" where
  "ilog2 q = (let k = bitlen (fst (quotient_of q)) - bitlen (snd (quotient_of q))
              in if pow2 k \<le> q then k else k - 1)"

definition round_half_even :: "rat \<Rightarrow> int" where
  "round_half_even q =
     (let f = \<lfloor>q\<rfloor>; d = q - of_int f
      in if d < 1 / 2 then f else if 1 / 2 < d then f + 1 else if even f then f else f + 1)"

text \<open>
  Rounding to binary64: 53 significant bits, the least exponent of a unit in the last place
  is \<open>-1074\<close> (subnormal numbers). The rounded magnitude is \<open>n * 2 ^ e\<close> for an integer
  \<open>n\<close>; it is \<open>2 ^ 1024\<close> or more, and the result infinite, when \<open>n\<close> shifted by \<open>e\<close> has
  more than 1024 bits.
\<close>

definition round64 :: "rat \<Rightarrow> float64" where
  "round64 q =
     (if q = 0 then Finite 0
      else let e = max (ilog2 \<bar>q\<bar> - 52) (- 1074);
               n = round_half_even (q / pow2 e)
           in if 1024 < bitlen \<bar>n\<bar> + e then Inf (q < 0) else Finite (of_int n * pow2 e))"

definition f64_of_int64 :: "int64 \<Rightarrow> float64" where
  "f64_of_int64 w = round64 (of_int (sint w))"

fun f64_mul :: "float64 \<Rightarrow> float64 \<Rightarrow> float64" where
  "f64_mul NaN y = NaN"
| "f64_mul x NaN = NaN"
| "f64_mul (Inf s) (Inf t) = Inf (s \<noteq> t)"
| "f64_mul (Inf s) (Finite b) = (if b = 0 then NaN else Inf (s \<noteq> (b < 0)))"
| "f64_mul (Finite a) (Inf t) = (if a = 0 then NaN else Inf ((a < 0) \<noteq> t))"
| "f64_mul (Finite a) (Finite b) = round64 (a * b)"

fun f64_div :: "float64 \<Rightarrow> float64 \<Rightarrow> float64" where
  "f64_div NaN y = NaN"
| "f64_div x NaN = NaN"
| "f64_div (Inf s) (Inf t) = NaN"
| "f64_div (Inf s) (Finite b) = Inf (s \<noteq> (b < 0))"
| "f64_div (Finite a) (Inf t) = Finite 0"
| "f64_div (Finite a) (Finite b) =
     (if b = 0 then (if a = 0 then NaN else Inf (a < 0)) else round64 (a / b))"

fun f64_add :: "float64 \<Rightarrow> float64 \<Rightarrow> float64" where
  "f64_add NaN y = NaN"
| "f64_add x NaN = NaN"
| "f64_add (Inf s) (Inf t) = (if s = t then Inf s else NaN)"
| "f64_add (Inf s) (Finite b) = Inf s"
| "f64_add (Finite a) (Inf t) = Inf t"
| "f64_add (Finite a) (Finite b) = round64 (a + b)"

fun f64_neg :: "float64 \<Rightarrow> float64" where
  "f64_neg NaN = NaN"
| "f64_neg (Inf s) = Inf (\<not> s)"
| "f64_neg (Finite a) = Finite (- a)"

definition f64_sub :: "float64 \<Rightarrow> float64 \<Rightarrow> float64" where
  "f64_sub x y = f64_add x (f64_neg y)"

text \<open>Comparisons: every comparison with NaN is false.\<close>

fun f64_less :: "float64 \<Rightarrow> float64 \<Rightarrow> bool" where
  "f64_less NaN y = False"
| "f64_less x NaN = False"
| "f64_less (Inf s) (Inf t) = (s \<and> \<not> t)"
| "f64_less (Inf s) (Finite b) = s"
| "f64_less (Finite a) (Inf t) = (\<not> t)"
| "f64_less (Finite a) (Finite b) = (a < b)"

fun f64_le :: "float64 \<Rightarrow> float64 \<Rightarrow> bool" where
  "f64_le NaN y = False"
| "f64_le x NaN = False"
| "f64_le (Inf s) (Inf t) = (s \<or> \<not> t)"
| "f64_le (Inf s) (Finite b) = s"
| "f64_le (Finite a) (Inf t) = (\<not> t)"
| "f64_le (Finite a) (Finite b) = (a \<le> b)"

text \<open>\<open>math.Floor\<close>: the special values are returned as they are.\<close>

fun Floor :: "float64 \<Rightarrow> float64" where
  "Floor NaN = NaN"
| "Floor (Inf s) = Inf s"
| "Floor (Finite a) = Finite (of_int \<lfloor>a\<rfloor>)"

text \<open>
  The conversion \<open>int64(f)\<close> drops the fraction. Where the truncated value is no \<open>int64\<close>
  (NaN, infinities, magnitudes of \<open>2 ^ 63\<close> and more) Go leaves the result to the
  implementation: it is the parameter \<open>undef\<close>.
\<close>

definition trunc_rat :: "rat \<Rightarrow> int" where
  "trunc_rat q = (if 0 \<le> q then \<lfloor>q\<rfloor> else \<lceil>q\<rceil>)"

fun int64_of_f64 :: "(float64 \<Rightarrow> int64) \<Rightarrow> float64 \<Rightarrow> int64" where
  "int64_of_f64 undef (Finite a) =
     (if - (2 ^ 63) \<le> trunc_rat a \<and> trunc_rat a < 2 ^ 63 then word_of_int (trunc_rat a)
      else undef (Finite a))"
| "int64_of_f64 undef x = undef x"

section \<open>The Currency type\<close>

text \<open>
  The formatter and the two JSON codecs are interface values of other packages: a handle, or
  \<open>None\<close> for the nil interface. \<open>bufC\<close> is the byte buffer of the formatting methods.
\<close>

type_synonym CurrencyFormatter = "nat option"
type_synonym JSONMarshaller = "nat option"
type_synonym JSONUnmarshaller = "nat option"

record Currency =
  m :: int64
  fmt :: CurrencyFormatter
  Valid :: bool
  Interval :: uint8
  jm :: JSONMarshaller
  jum :: JSONUnmarshaller
  guard :: int64
  guardf :: float64
  dp :: int64
  dpf :: float64
  bufC :: "uint8 list"

text \<open>
  What the file refers to and does not declare is a parameter of the model: the package
  variables \<open>guard\<close>, \<open>guardf\<close>, \<open>dp\<close>, \<open>dpf\<close>, \<open>DefaultFormat\<close>, \<open>DefaultJSONEncode\<close> and
  \<open>DefaultJSONDecode\<close>, the values of \<open>NewJSONEncoder()\<close> and \<open>NewJSONDecoder()\<close>, the answer
  of \<open>log.IsTrace()\<close>, the library function \<open>math.Log\<close> (\<open>Log\<close>), and the
  implementation-dependent conversion to \<open>int64\<close> of a float64 that is out of range
  (\<open>conv_undef\<close>).
\<close>

record env =
  pkg_guard :: int64
  pkg_guardf :: float64
  pkg_dp :: int64
  pkg_dpf :: float64
  DefaultFormat :: CurrencyFormatter
  DefaultJSONEncode :: JSONMarshaller
  DefaultJSONDecode :: JSONUnmarshaller
  NewJSONEncoder :: JSONMarshaller
  NewJSONDecoder :: JSONUnmarshaller
  IsTrace :: bool
  Log :: "float64 \<Rightarrow> float64"
  conv_undef :: "float64 \<Rightarrow> int64"

definition Interval000 :: uint8 where "Interval000 = 0"
definition Interval005 :: uint8 where "Interval005 = 1"
definition Interval010 :: uint8 where "Interval010 = 2"
definition Interval015 :: uint8 where "Interval015 = 3"
definition Interval025 :: uint8 where "Interval025 = 4"
definition Interval050 :: uint8 where "Interval050 = 5"
definition Interval100 :: uint8 where "Interval100 = 6"
definition interval999 :: uint8 where "interval999 = 7"

text \<open>
  \<open>RoundTo\<close> and \<open>RoundToN\<close> are package variables; the package never assigns them, and
  they have their initial values \<open>.5\<close> and \<open>RoundTo * -1\<close>.
\<close>

definition RoundTo :: float64 where
  "RoundTo = Finite (1 / 2)"

definition RoundToN :: float64 where
  "RoundToN = f64_mul RoundTo (Finite (- 1))"

subsection \<open>Logging and exit\<close>

text \<open>
  A call of the logger appends an event, named by its first argument. \<open>log.Fatal\<close> ends the
  process: a computation either returns a value or exits, in both cases with the events it
  logged.
\<close>

datatype log_event = Trace string | Error string | Fatal string

datatype 'a outcome = Exits "log_event list" | Returns 'a "log_event list"

fun and_then :: "'a outcome \<Rightarrow> ('a \<Rightarrow> 'b outcome) \<Rightarrow> 'b outcome" where
  "and_then (Exits l) f = Exits l"
| "and_then (Returns x l) f =
     (case f x of Exits l' \<Rightarrow> Exits (l @ l') | Returns y l' \<Rightarrow> Returns y (l @ l'))"

subsection \<open>Options\<close>

text \<open>
  An \<open>OptionFunc\<close> is a closure \<open>func(*Currency) OptionFunc\<close>. Each of the six functions
  that build one first normalises its argument and then returns a closure over the
  normalised value; the closure is represented by the function that built it and the value
  it captured. Calling it (\<open>call\<close>) stores the value and builds the inverse from the
  previous one.
\<close>

datatype OptionFunc =
    SwedishFn uint8
  | GuardFn int64
  | PrecisionFn int64
  | FormatFn CurrencyFormatter
  | JSONMarshalFn JSONMarshaller
  | JSONUnmarshalFn JSONUnmarshaller

definition Swedish :: "uint8 \<Rightarrow> OptionFunc outcome" where
  "Swedish i =
     (if interval999 \<le> i then Returns (SwedishFn Interval000) [Error ''Currency=SetSwedishRounding'']
      else Returns (SwedishFn i) [])"

definition Guard :: "int64 \<Rightarrow> OptionFunc" where
  "Guard g = GuardFn (if g = 0 then 1 else g)"

definition Precision_p64 :: "env \<Rightarrow> int64 \<Rightarrow> int64" where
  "Precision_p64 E p =
     (let p64 = p;
          l = int64_of_f64 (conv_undef E) (Log E (f64_of_int64 p64));
          p64 = (if p64 \<noteq> 0 \<and> sint l smod 2 \<noteq> 0 then pkg_dp E else p64);
          p64 = (if p64 = 0 then 1 else p64)
      in p64)"

definition Precision :: "env \<Rightarrow> int64 \<Rightarrow> OptionFunc" where
  "Precision E p = PrecisionFn (Precision_p64 E p)"

text \<open>
  Modelled from the spec: \<open>log.Fatal\<close> of the package \<open>utils/log\<close>, which is not among the
  sources. The specification calls an empty formatter "a fatal configuration error" and the
  comment of \<open>Format\<close> says "Panics if f is nil": the call logs the event and the
  computation ends there.
\<close>

definition Format :: "CurrencyFormatter \<Rightarrow> OptionFunc outcome" where
  "Format f = (if f = None then Exits [Fatal ''money=Format''] else Returns (FormatFn f) [])"

definition JSONMarshal :: "env \<Rightarrow> JSONMarshaller \<Rightarrow> OptionFunc" where
  "JSONMarshal E mm = JSONMarshalFn (if mm = None then NewJSONEncoder E else mm)"

definition JSONUnmarshal :: "env \<Rightarrow> JSONUnmarshaller \<Rightarrow> OptionFunc" where
  "JSONUnmarshal E um = JSONUnmarshalFn (if um = None then NewJSONDecoder E else um)"

fun call :: "env \<Rightarrow> OptionFunc \<Rightarrow> Currency \<Rightarrow> (Currency \<times> OptionFunc) outcome" where
  "call E (SwedishFn i) c =
     (let previous = Interval c; c = c\<lparr>Interval := i\<rparr>
      in and_then (Swedish previous) (\<lambda>undo. Returns (c, undo) []))"
| "call E (GuardFn g) c =
     (let previous = guard c; c = c\<lparr>guard := g, guardf := f64_of_int64 g\<rparr>
      in Returns (c, Guard previous) [])"
| "call E (PrecisionFn p64) c =
     (let previous = dp c; c = c\<lparr>dp := p64, dpf := f64_of_int64 p64\<rparr>
      in Returns (c, Precision E previous) [])"
| "call E (FormatFn f) c =
     (let previous = fmt c; c = c\<lparr>fmt := f\<rparr>
      in and_then (Format previous) (\<lambda>undo. Returns (c, undo) []))"
| "call E (JSONMarshalFn mm) c =
     (let previous = jm c; c = c\<lparr>jm := mm\<rparr>
      in Returns (c, JSONMarshal E previous) [])"
| "call E (JSONUnmarshalFn um) c =
     (let previous = jum c; c = c\<lparr>jum := um\<rparr>
      in Returns (c, JSONUnmarshal E previous) [])"

text \<open>
  \<open>Option\<close> runs the options in order on the receiver, skips a nil entry (\<open>None\<close>) and
  returns what the last option that ran returned, nil if none ran. The receiver is a
  pointer: the updated Currency is returned with it.
\<close>

fun Option_loop ::
  "env \<Rightarrow> Currency \<Rightarrow> OptionFunc option \<Rightarrow> OptionFunc option list \<Rightarrow>
   (Currency \<times> OptionFunc option) outcome" where
  "Option_loop E c previous [] = Returns (c, previous) []"
| "Option_loop E c previous (None # opts) = Option_loop E c previous opts"
| "Option_loop E c previous (Some opt # opts) =
     and_then (call E opt c) (\<lambda>(c', undo). Option_loop E c' (Some undo) opts)"

definition Option :: "env \<Rightarrow> Currency \<Rightarrow> OptionFunc option list \<Rightarrow>
   (Currency \<times> OptionFunc option) outcome" where
  "Option E c opts = Option_loop E c None opts"

text \<open>
  \<open>New\<close> starts from the composite literal \<open>Currency{guard: guard, ...}\<close>
  (\<open>default_Currency\<close>): the fields it does not name have their zero values.
\<close>

definition default_Currency :: "env \<Rightarrow> Currency" where
  "default_Currency E =
     \<lparr>m = 0, fmt = DefaultFormat E, Valid = False, Interval = 0,
      jm = DefaultJSONEncode E, jum = DefaultJSONDecode E,
      guard = pkg_guard E, guardf = pkg_guardf E, dp = pkg_dp E, dpf = pkg_dpf E,
      bufC = []\<rparr>"

definition New :: "env \<Rightarrow> OptionFunc option list \<Rightarrow> Currency outcome" where
  "New E opts =
     (let c = default_Currency E
      in and_then (Option E c opts) (\<lambda>(c, previous). Returns c []))"

subsection \<open>Methods\<close>

text \<open>The methods have value receivers: each works on a copy and returns it.\<close>

definition Raw :: "Currency \<Rightarrow> int64" where
  "Raw c = m c"

definition Set :: "Currency \<Rightarrow> int64 \<Rightarrow> Currency" where
  "Set c i = c\<lparr>m := i, Valid := True\<rparr>"

definition Neg :: "Currency \<Rightarrow> Currency" where
  "Neg c = (if m c \<noteq> 0 then c\<lparr>m := m c * - 1\<rparr> else c)"

definition Abs :: "Currency \<Rightarrow> Currency" where
  "Abs c = (if m c <s 0 then Neg c else c)"

definition Getf :: "Currency \<Rightarrow> float64" where
  "Getf c = f64_div (f64_of_int64 (m c)) (dpf c)"

definition Dec :: "Currency \<Rightarrow> panic + int64" where
  "Dec c = go_rem (Raw (Abs c)) (dp c)"

definition rnd :: "int64 \<Rightarrow> float64 \<Rightarrow> int64" where
  "rnd r trunc =
     (if f64_less (Finite 0) trunc then (if f64_le RoundTo trunc then r + 1 else r)
      else (if f64_less trunc RoundToN then r - 1 else r))"

definition Setf :: "env \<Rightarrow> Currency \<Rightarrow> float64 \<Rightarrow> Currency" where
  "Setf E c f =
     (let fDPf = f64_mul f (dpf c);
          r = int64_of_f64 (conv_undef E) (f64_mul f (dpf c));
          c = c\<lparr>Valid := True\<rparr>
      in Set c (rnd r (f64_sub fDPf (f64_of_int64 r))))"

definition Round :: "float64 \<Rightarrow> float64" where
  "Round f = Floor (f64_add f (Finite (1 / 2)))"

text \<open>
  \<open>Add\<close> and \<open>Sub\<close> test the sign bit of \<open>(r^c.m)&(r^d.m)\<close> and of \<open>(r^c.m)&^(r^d.m)\<close>;
  \<open>&^\<close> is AND NOT. On overflow they log and return \<open>New()\<close>.
\<close>

definition Add :: "env \<Rightarrow> Currency \<Rightarrow> Currency \<Rightarrow> Currency outcome" where
  "Add E c d =
     (let r = m c + m d
      in if (r XOR m c) AND (r XOR m d) <s 0
         then and_then (Returns () ((if IsTrace E then [Trace ''Currency=Add''] else [])
                                    @ [Error ''Currency=Add'']))
                (\<lambda>_. New E [])
         else Returns (c\<lparr>m := r, Valid := True\<rparr>) [])"

definition Sub :: "env \<Rightarrow> Currency \<Rightarrow> Currency \<Rightarrow> Currency outcome" where
  "Sub E c d =
     (let r = m c - m d
      in if (r XOR m c) AND NOT (r XOR m d) <s 0
         then and_then (Returns () ((if IsTrace E then [Trace ''Currency=Sub''] else [])
                                    @ [Error ''Currency=Sub'']))
                (\<lambda>_. New E [])
         else Returns (c\<lparr>m := r\<rparr>) [])"

text \<open>
  The method \<open>Swedish\<close> of \<open>Currency\<close> (the option of the same name is \<open>Swedish\<close> above):
  it applies the options to its copy of the receiver and rounds by the interval.
\<close>

definition Currency_Swedish ::
  "env \<Rightarrow> Currency \<Rightarrow> OptionFunc option list \<Rightarrow> Currency outcome" where
  "Currency_Swedish E c opts =
     and_then (Option E c opts) (\<lambda>(c, previous). Returns
       (if Interval c = Interval005
        then Setf E c (f64_div (Round (f64_mul (Getf c) (Finite 20))) (Finite 20))
        else if Interval c = Interval010
        then Setf E c (f64_div (Round (f64_mul (Getf c) (Finite 10))) (Finite 10))
        else if Interval c = Interval015
        then (let c = (if sint (m c) smod 5 = 0 then c\<lparr>m := m c - 1\<rparr> else c)
              in Setf E c (f64_div (Round (f64_mul (Getf c) (Finite 10))) (Finite 10)))
        else if Interval c = Interval025
        then Setf E c (f64_div (Round (f64_mul (Getf c) (Finite 4))) (Finite 4))
        else if Interval c = Interval050
        then Setf E c (f64_div (Round (f64_mul (Getf c) (Finite 2))) (Finite 2))
        else if Interval c = Interval100
        then Setf E c (f64_div (Round (f64_mul (Getf c) (Finite 1))) (Finite 1))
        else c) [])"

subsection \<open>Options in use\<close>

text \<open>
  \<open>Option\<close> returns the inverse of the last option so that the caller can apply it later:
  \<open>prev := c.Option(opt); c.Option(prev)\<close>. This is \<open>apply_then_undo\<close>.
\<close>

definition apply_then_undo ::
  "env \<Rightarrow> OptionFunc \<Rightarrow> Currency \<Rightarrow> (Currency \<times> OptionFunc option) outcome" where
  "apply_then_undo E opt c =
     and_then (Option E c [Some opt]) (\<lambda>(c', previous). Option E c' [previous])"

text \<open>
  A closure of \<open>Guard\<close> never holds 0, since \<open>Guard\<close> replaces 0 by 1 before it builds the
  closure. \<open>guard_ok\<close> says so of an \<open>OptionFunc\<close>; it holds of every closure that the six
  functions build. \<open>guard_ok_entry\<close> is the same for an argument of \<open>Option\<close>, which may be
  nil.
\<close>

fun guard_ok :: "OptionFunc \<Rightarrow> bool" where
  "guard_ok (GuardFn g) = (g \<noteq> 0)"
| "guard_ok opt = True"

fun guard_ok_entry :: "OptionFunc option \<Rightarrow> bool" where
  "guard_ok_entry None = True"
| "guard_ok_entry (Some opt) = guard_ok opt"

subsection \<open>Sample values\<close>

text \<open>
  An environment for the closed instances below: package defaults of 10000, tracing off,
  \<open>math.Log\<close> given at the arguments the instances use, with the values the Go library
  returns there (\<open>0\<close> at 1, \<open>0.6931471805599453\<close> at 2, \<open>4.605170185988092\<close> at 100,
  \<open>9.210340371976184\<close> at 10000) and NaN elsewhere, and the conversion of amd64 for a
  float64 out of range, which is \<open>math.MinInt64\<close>.
\<close>

definition example_env :: env where
  "example_env =
     \<lparr>pkg_guard = 10000, pkg_guardf = Finite 10000, pkg_dp = 10000, pkg_dpf = Finite 10000,
      DefaultFormat = Some 0, DefaultJSONEncode = Some 1, DefaultJSONDecode = Some 2,
      NewJSONEncoder = Some 3, NewJSONDecoder = Some 4, IsTrace = False,
      Log = (\<lambda>x. if x = Finite 1 then Finite 0
                 else if x = Finite 2 then Finite (6243314768165359 / 9007199254740992)
                 else if x = Finite 100 then Finite (2592480341699211 / 562949953421312)
                 else if x = Finite 10000 then Finite (2592480341699211 / 281474976710656)
                 else NaN),
      conv_undef = (\<lambda>x. MinInt64)\<rparr>"

text \<open>
  Two Currency values: the zero value of the struct, \<open>Currency{}\<close>, and the value that
  \<open>New(Precision(100))\<close> returns in the sample environment (lemma \<open>New_Precision_100\<close>).
\<close>

definition zero_Currency :: Currency where
  "zero_Currency =
     \<lparr>m = 0, fmt = None, Valid = False, Interval = 0, jm = None, jum = None,
      guard = 0, guardf = Finite 0, dp = 0, dpf = Finite 0, bufC = []\<rparr>"

definition example_Currency :: Currency where
  "example_Currency = (default_Currency example_env)\<lparr>dp := 100, dpf := Finite 100\<rparr>"

section \<open>Facts about 64-bit arithmetic\<close>

text \<open>
  The sign of a word is its bit 63, and the sum or difference of two words read as signed
  numbers is the exact result brought back into range by adding or subtracting \<open>2 ^ 64\<close>.
  From these, the bit tests of \<open>Add\<close> and \<open>Sub\<close> hold exactly when the exact result is no
  \<open>int64\<close>.
\<close>

lemma sint_neg_iff_bit63: "sint w < 0 \<longleftrightarrow> bit w 63" for w :: int64
  using bit_last_iff [of w] by simp

lemma stb_self: "- (2 ^ 63) \<le> s \<Longrightarrow> s < 2 ^ 63 \<Longrightarrow> signed_take_bit 63 s = s" for s :: int
  by (simp add: signed_take_bit_int_eq_self)

lemma stb_high:
  fixes s :: int
  assumes "2 ^ 63 \<le> s" "s < 2 ^ 64"
  shows "signed_take_bit 63 s = s - 2 ^ 64"
proof -
  have "(s + 2 ^ 63) mod 2 ^ 64 = (s + 2 ^ 63 - 2 ^ 64) mod 2 ^ 64"
    by (metis mod_diff_right_eq mod_self diff_zero)
  also have "\<dots> = s + 2 ^ 63 - 2 ^ 64"
    using assms by (intro mod_pos_pos_trivial) auto
  finally show ?thesis
    by (simp add: signed_take_bit_eq_take_bit_shift take_bit_eq_mod)
qed

lemma stb_low:
  fixes s :: int
  assumes "- (2 ^ 64) \<le> s" "s < - (2 ^ 63)"
  shows "signed_take_bit 63 s = s + 2 ^ 64"
proof -
  have "(s + 2 ^ 63) mod 2 ^ 64 = (s + 2 ^ 63 + 2 ^ 64) mod 2 ^ 64"
    by (simp only: mod_add_self2)
  also have "\<dots> = s + 2 ^ 63 + 2 ^ 64"
    using assms by (intro mod_pos_pos_trivial) auto
  finally show ?thesis
    by (simp add: signed_take_bit_eq_take_bit_shift take_bit_eq_mod)
qed

lemma sint_bounds64: "- (2 ^ 63) \<le> sint w \<and> sint w < 2 ^ 63" for w :: int64
  using sint_ge [of w] sint_lt [of w] by simp

lemma sint_add64: "sint (a + b) = signed_take_bit 63 (sint a + sint b)" for a b :: int64
  by (simp add: sint_word_ariths)

lemma sint_sub64: "sint (a - b) = signed_take_bit 63 (sint a - sint b)" for a b :: int64
  by (simp add: sint_word_ariths)

lemma add_overflow_test:
  fixes a b :: int64
  shows "((a + b XOR a) AND (a + b XOR b) <s 0)
         \<longleftrightarrow> (sint a + sint b < - (2 ^ 63) \<or> 2 ^ 63 \<le> sint a + sint b)"
proof -
  let ?s = "sint a + sint b"
  have test: "((a + b XOR a) AND (a + b XOR b) <s 0)
      \<longleftrightarrow> ((sint (a + b) < 0) \<noteq> (sint a < 0)) \<and> ((sint (a + b) < 0) \<noteq> (sint b < 0))"
    by (simp add: word_sless_alt sint_neg_iff_bit63 bit_and_iff bit_xor_iff)
  have ba: "- (2 ^ 63) \<le> sint a" "sint a < 2 ^ 63" and bb: "- (2 ^ 63) \<le> sint b" "sint b < 2 ^ 63"
    using sint_bounds64 [of a] sint_bounds64 [of b] by simp_all
  consider (low) "?s < - (2 ^ 63)" | (mid) "- (2 ^ 63) \<le> ?s" "?s < 2 ^ 63" | (high) "2 ^ 63 \<le> ?s"
    by linarith
  then show ?thesis
  proof cases
    case low
    then have "sint (a + b) = ?s + 2 ^ 64"
      using ba bb by (simp add: sint_add64 stb_low)
    with low ba bb show ?thesis unfolding test by simp
  next
    case mid
    then have "sint (a + b) = ?s"
      by (simp add: sint_add64 stb_self)
    with mid ba bb show ?thesis unfolding test by auto
  next
    case high
    then have "sint (a + b) = ?s - 2 ^ 64"
      using ba bb by (simp add: sint_add64 stb_high)
    with high ba bb show ?thesis unfolding test by simp
  qed
qed

lemma sub_overflow_test:
  fixes a b :: int64
  shows "((a - b XOR a) AND NOT (a - b XOR b) <s 0)
         \<longleftrightarrow> (sint a - sint b < - (2 ^ 63) \<or> 2 ^ 63 \<le> sint a - sint b)"
proof -
  let ?s = "sint a - sint b"
  have test: "((a - b XOR a) AND NOT (a - b XOR b) <s 0)
      \<longleftrightarrow> ((sint (a - b) < 0) \<noteq> (sint a < 0)) \<and> ((sint (a - b) < 0) = (sint b < 0))"
    by (simp add: word_sless_alt sint_neg_iff_bit63 bit_and_iff bit_xor_iff bit_not_iff)
  have ba: "- (2 ^ 63) \<le> sint a" "sint a < 2 ^ 63" and bb: "- (2 ^ 63) \<le> sint b" "sint b < 2 ^ 63"
    using sint_bounds64 [of a] sint_bounds64 [of b] by simp_all
  consider (low) "?s < - (2 ^ 63)" | (mid) "- (2 ^ 63) \<le> ?s" "?s < 2 ^ 63" | (high) "2 ^ 63 \<le> ?s"
    by linarith
  then show ?thesis
  proof cases
    case low
    then have "sint (a - b) = ?s + 2 ^ 64"
      using ba bb by (simp add: sint_sub64 stb_low)
    with low ba bb show ?thesis unfolding test by simp
  next
    case mid
    then have "sint (a - b) = ?s"
      by (simp add: sint_sub64 stb_self)
    with mid ba bb show ?thesis unfolding test by auto
  next
    case high
    then have "sint (a - b) = ?s - 2 ^ 64"
      using ba bb by (simp add: sint_sub64 stb_high)
    with high ba bb show ?thesis unfolding test by simp
  qed
qed

section \<open>Facts about the methods\<close>

lemma and_then_Returns_nil [simp]: "and_then (Returns x []) f = f x"
  by (cases "f x") simp_all

lemma New_no_options: "New E [] = Returns (default_Currency E) []"
  by (simp add: New_def Option_def)

lemma sint_MinInt64: "sint MinInt64 = - (2 ^ 63)"
  by (simp add: MinInt64_def)

lemma sint_eq_MinInt64_iff: "sint w = - (2 ^ 63) \<longleftrightarrow> w = MinInt64" for w :: int64
proof
  assume "sint w = - (2 ^ 63)"
  then have "(word_of_int (sint w) :: int64) = word_of_int (- (2 ^ 63))" by simp
  then show "w = MinInt64" by (simp add: MinInt64_def)
next
  assume "w = MinInt64"
  then show "sint w = - (2 ^ 63)" by (simp add: sint_MinInt64)
qed

lemma sint_uminus64: "w \<noteq> MinInt64 \<Longrightarrow> sint (- w) = - sint w" for w :: int64
proof -
  assume "w \<noteq> MinInt64"
  then have "sint w \<noteq> - (2 ^ 63)" using sint_eq_MinInt64_iff [of w] by simp
  with sint_bounds64 [of w] have "- (2 ^ 63) \<le> - sint w" "- sint w < 2 ^ 63" by simp_all
  then have "signed_take_bit 63 (- sint w) = - sint w" by (rule stb_self)
  then show ?thesis by (simp add: sint_word_ariths)
qed

lemma sint_Raw_Abs: "m c \<noteq> MinInt64 \<Longrightarrow> sint (Raw (Abs c)) = \<bar>sint (m c)\<bar>"
  by (simp add: Raw_def Abs_def Neg_def word_sless_alt sint_uminus64)

lemma Neg_MinInt64: "m c = MinInt64 \<Longrightarrow> Raw (Neg c) = MinInt64"
  by (simp add: Raw_def Neg_def MinInt64_def)

lemma Add_in_range:
  assumes "- (2 ^ 63) \<le> sint (m c) + sint (m d)" and "sint (m c) + sint (m d) < 2 ^ 63"
  shows "Add E c d = Returns (c\<lparr>m := m c + m d, Valid := True\<rparr>) []"
  using assms by (simp add: Add_def Let_def add_overflow_test)

lemma Sub_in_range:
  assumes "- (2 ^ 63) \<le> sint (m c) - sint (m d)" and "sint (m c) - sint (m d) < 2 ^ 63"
  shows "Sub E c d = Returns (c\<lparr>m := m c - m d\<rparr>) []"
  using assms by (simp add: Sub_def Let_def sub_overflow_test)

lemma smod_nonneg: "0 \<le> k \<Longrightarrow> k smod l = k mod \<bar>l\<bar>" for k l :: int
  by (cases "k = 0") (simp_all add: signed_modulo_int_def)

lemma New_Precision_100:
  "New example_env [Some (Precision example_env 100)] = Returns example_Currency []"
  by code_simp

section \<open>Facts about the options\<close>

lemma guard_ok_Guard: "guard_ok (Guard g)"
  by (simp add: Guard_def)

lemma call_guard:
  assumes "guard_ok f" and "guard c \<noteq> 0" and "call E f c = Returns (c', undo) l"
  shows "guard c' \<noteq> 0 \<and> guard_ok undo"
  using assms
  by (cases f)
     (auto simp: Swedish_def Format_def Guard_def Precision_def JSONMarshal_def
        JSONUnmarshal_def Let_def split: if_splits)

lemma Option_loop_guard:
  assumes "guard c \<noteq> 0" and "\<forall>f. Some f \<in> set opts \<longrightarrow> guard_ok f"
    and "\<forall>f. previous = Some f \<longrightarrow> guard_ok f"
    and "Option_loop E c previous opts = Returns (c', p) l"
  shows "guard c' \<noteq> 0 \<and> (\<forall>f. p = Some f \<longrightarrow> guard_ok f)"
  using assms
proof (induction E c previous opts arbitrary: c' p l rule: Option_loop.induct)
  case (1 E c previous)
  then show ?case by simp
next
  case (2 E c previous opts)
  then show ?case by simp
next
  case (3 E c previous opt opts)
  from "3.prems"(4) obtain c1 undo l1 l2 where
    step: "call E opt c = Returns (c1, undo) l1" and
    rest: "Option_loop E c1 (Some undo) opts = Returns (c', p) l2"
    by (cases "call E opt c") (auto split: outcome.splits prod.splits)
  from "3.prems"(2) have "guard_ok opt" by simp
  with "3.prems"(1) step have g1: "guard c1 \<noteq> 0" "guard_ok undo"
    using call_guard by blast+
  show ?case
  proof (rule "3.IH" [of c1 undo c' p l2])
    show "guard c1 \<noteq> 0" by (rule g1)
    show "\<forall>f. Some f \<in> set opts \<longrightarrow> guard_ok f" using "3.prems"(2) by simp
    show "\<forall>f. Some undo = Some f \<longrightarrow> guard_ok f" using g1 by simp
    show "Option_loop E c1 (Some undo) opts = Returns (c', p) l2" by (rule rest)
  qed
qed

lemma Option_single:
  "Option E c [Some f] = and_then (call E f c) (\<lambda>(c', undo). Returns (c', Some undo) [])"
  by (simp add: Option_def)

lemma and_then_Returns [simp]: "and_then (Returns x l) (\<lambda>y. Returns (g y) []) = Returns (g x) l"
  by simp

text \<open>
  \<open>Precision\<close> keeps every \<open>p\<close> other than 0 whose logarithm, as \<open>math.Log\<close> returns it, is
  at least 0 and less than 1: its integer part 0 is even.
\<close>

lemma Precision_keeps_small_Log:
  assumes "Log E (f64_of_int64 p) = Finite q" and "0 \<le> q" and "q < 1" and "p \<noteq> 0"
  shows "Precision_p64 E p = p"
proof -
  from assms(2,3) have "\<lfloor>q\<rfloor> = 0" by linarith
  with assms(2) have "trunc_rat q = 0" by (simp add: trunc_rat_def)
  with assms(1,4) show ?thesis by (simp add: Precision_p64_def Let_def)
qed

section \<open>Facts about rounding\<close>

text \<open>
  The two thresholds of \<open>rnd\<close>, and the four roundings of the interval table, computed for
  any Currency of precision 2 and in any environment.
\<close>

lemma RoundTo_val: "RoundTo = Finite (1 / 2)" and RoundToN_val: "RoundToN = Finite (- (1 / 2))"
  by code_simp+

lemma Swedish_45_Interval015:
  "Currency_Swedish E \<lparr>m = 45, fmt = f, Valid = v, Interval = Interval015, jm = j, jum = u,
       guard = g, guardf = gf, dp = 100, dpf = Finite 100, bufC = b\<rparr> []
   = Returns \<lparr>m = 40, fmt = f, Valid = True, Interval = Interval015, jm = j, jum = u,
       guard = g, guardf = gf, dp = 100, dpf = Finite 100, bufC = b\<rparr> []"
  by code_simp

lemma Swedish_45_Interval010:
  "Currency_Swedish E \<lparr>m = 45, fmt = f, Valid = v, Interval = Interval010, jm = j, jum = u,
       guard = g, guardf = gf, dp = 100, dpf = Finite 100, bufC = b\<rparr> []
   = Returns \<lparr>m = 50, fmt = f, Valid = True, Interval = Interval010, jm = j, jum = u,
       guard = g, guardf = gf, dp = 100, dpf = Finite 100, bufC = b\<rparr> []"
  by code_simp

lemma Swedish_43_Interval010:
  "Currency_Swedish E \<lparr>m = 43, fmt = f, Valid = v, Interval = Interval010, jm = j, jum = u,
       guard = g, guardf = gf, dp = 100, dpf = Finite 100, bufC = b\<rparr> []
   = Returns \<lparr>m = 40, fmt = f, Valid = True, Interval = Interval010, jm = j, jum = u,
       guard = g, guardf = gf, dp = 100, dpf = Finite 100, bufC = b\<rparr> []"
  by code_simp

lemma Swedish_46_Interval010:
  "Currency_Swedish E \<lparr>m = 46, fmt = f, Valid = v, Interval = Interval010, jm = j, jum = u,
       guard = g, guardf = gf, dp = 100, dpf = Finite 100, bufC = b\<rparr> []
   = Returns \<lparr>m = 50, fmt = f, Valid = True, Interval = Interval010, jm = j, jum = u,
       guard = g, guardf = gf, dp = 100, dpf = Finite 100, bufC = b\<rparr> []"
  by code_simp

section \<open>The claims\<close>

text \<open>
  C1. When the exact sum of the two raw amounts is no \<open>int64\<close>, \<open>Add\<close> finds it by its sign
  test, logs the overflow and returns \<open>New()\<close>: the Currency of the package defaults, whose
  raw amount is 0 and whose \<open>Valid\<close> is false, and not the sum that wrapped around. The
  instance is \<open>Set(math.MaxInt64/2+1).Add(Set(math.MaxInt64/2+1))\<close>.
\<close>

theorem Add_overflow_returns_default:
  assumes "sint (m c) + sint (m d) < - (2 ^ 63) \<or> 2 ^ 63 \<le> sint (m c) + sint (m d)"
  shows "Add E c d = Returns (default_Currency E)
           ((if IsTrace E then [Trace ''Currency=Add''] else []) @ [Error ''Currency=Add''])
         \<and> New E [] = Returns (default_Currency E) []
         \<and> Raw (default_Currency E) = 0 \<and> \<not> Valid (default_Currency E)"
  using assms
  by (simp add: Add_def Let_def add_overflow_test New_no_options Raw_def default_Currency_def)

theorem Add_overflow_returns_default_witness:
  "2 ^ 63 \<le> sint (m (Set (default_Currency example_env) (MaxInt64 div 2 + 1)))
            + sint (m (Set (default_Currency example_env) (MaxInt64 div 2 + 1))) \<and>
   Add example_env (Set (default_Currency example_env) (MaxInt64 div 2 + 1))
       (Set (default_Currency example_env) (MaxInt64 div 2 + 1))
     = Returns (default_Currency example_env) [Error ''Currency=Add''] \<and>
   Raw (default_Currency example_env) = 0 \<and> \<not> Valid (default_Currency example_env)"
proof -
  have h: "2 ^ 63 \<le> sint (m (Set (default_Currency example_env) (MaxInt64 div 2 + 1)))
            + sint (m (Set (default_Currency example_env) (MaxInt64 div 2 + 1)))"
    by (simp add: Set_def MaxInt64_def)
  then show ?thesis
    using Add_overflow_returns_default [of "Set (default_Currency example_env) (MaxInt64 div 2 + 1)"
        "Set (default_Currency example_env) (MaxInt64 div 2 + 1)" example_env]
    by (simp add: example_env_def)
qed

text \<open>
  C2. When \<open>a.Add(b)\<close> does not overflow, \<open>a.Add(b).Sub(b).Raw()\<close> is \<open>a.Raw()\<close>. The
  subtraction cannot overflow then, and the \<open>Valid\<close> flags of \<open>a\<close> and \<open>b\<close> play no part.
\<close>

theorem Add_then_Sub_Raw:
  assumes "- (2 ^ 63) \<le> sint (m a) + sint (m b)" and "sint (m a) + sint (m b) < 2 ^ 63"
  shows "and_then (Add E a b) (\<lambda>s. and_then (Sub E s b) (\<lambda>t. Returns (Raw t) []))
         = Returns (Raw a) []"
proof -
  let ?s = "a\<lparr>m := m a + m b, Valid := True\<rparr>"
  have add: "Add E a b = Returns ?s []"
    using assms by (rule Add_in_range)
  have "sint (m a + m b) = sint (m a) + sint (m b)"
    using assms by (simp add: sint_add64 stb_self)
  then have "sint (m ?s) - sint (m b) = sint (m a)" by simp
  with sint_bounds64 [of "m a"]
  have "- (2 ^ 63) \<le> sint (m ?s) - sint (m b)" and "sint (m ?s) - sint (m b) < 2 ^ 63"
    by simp_all
  then have "Sub E ?s b = Returns (?s\<lparr>m := m ?s - m b\<rparr>) []"
    by (rule Sub_in_range)
  then show ?thesis
    by (simp add: add Raw_def)
qed

theorem Add_then_Sub_Raw_witness:
  "- (2 ^ 63) \<le> sint (m (Set (default_Currency example_env) 1999)) + sint (m (Set (default_Currency example_env) (- 4500))) \<and>
   sint (m (Set (default_Currency example_env) 1999)) + sint (m (Set (default_Currency example_env) (- 4500))) < 2 ^ 63 \<and>
   and_then (Add example_env (Set (default_Currency example_env) 1999) (Set (default_Currency example_env) (- 4500)))
     (\<lambda>s. and_then (Sub example_env s (Set (default_Currency example_env) (- 4500))) (\<lambda>t. Returns (Raw t) []))
   = Returns 1999 []"
  using Add_then_Sub_Raw [of "Set (default_Currency example_env) 1999"
      "Set (default_Currency example_env) (- 4500)" example_env]
  by (simp add: Set_def Raw_def)

text \<open>
  C10. For every amount greater than \<open>math.MinInt64\<close>, \<open>Abs().Raw()\<close> is not negative. At
  \<open>math.MinInt64\<close> the product by \<open>-1\<close> in \<open>Neg\<close> wraps around to \<open>math.MinInt64\<close>, so \<open>Neg\<close>
  and \<open>Abs\<close> return the amount as it was and \<open>Abs().Raw()\<close> is negative.
\<close>

theorem Abs_Raw_sign:
  "(sint MinInt64 < sint (m c) \<longrightarrow> 0 \<le> sint (Raw (Abs c))) \<and>
   (m c = MinInt64 \<longrightarrow> Raw (Neg c) = MinInt64 \<and> Raw (Abs c) = MinInt64 \<and> sint (Raw (Abs c)) < 0)"
proof (intro conjI impI)
  assume "sint MinInt64 < sint (m c)"
  then have "m c \<noteq> MinInt64" by auto
  then show "0 \<le> sint (Raw (Abs c))" by (simp add: sint_Raw_Abs)
next
  assume min: "m c = MinInt64"
  then show "Raw (Neg c) = MinInt64" by (rule Neg_MinInt64)
  from min have abs: "Raw (Abs c) = MinInt64"
    by (simp add: Abs_def word_sless_alt sint_MinInt64 Neg_MinInt64)
  then show "Raw (Abs c) = MinInt64" .
  from abs show "sint (Raw (Abs c)) < 0" by (simp add: sint_MinInt64)
qed

theorem Abs_Raw_sign_witness:
  "sint MinInt64 < sint (m (Set (default_Currency example_env) (- 5))) \<and>
   sint (Raw (Abs (Set (default_Currency example_env) (- 5)))) = 5 \<and>
   m (Set (default_Currency example_env) MinInt64) = MinInt64 \<and>
   Raw (Neg (Set (default_Currency example_env) MinInt64)) = MinInt64 \<and>
   Raw (Abs (Set (default_Currency example_env) MinInt64)) = MinInt64 \<and>
   sint (Raw (Abs (Set (default_Currency example_env) MinInt64))) = - 9223372036854775808"
  using Abs_Raw_sign [of "Set (default_Currency example_env) (- 5)"]
    Abs_Raw_sign [of "Set (default_Currency example_env) MinInt64"]
  by (simp add: Set_def default_Currency_def example_env_def MinInt64_def Raw_def Abs_def
      Neg_def word_sless_alt)

text \<open>
  C9. When the subtraction does not overflow, \<open>Sub\<close> changes the amount only: the result has
  the \<open>Valid\<close> flag of the receiver, so subtracting from an invalid Currency gives an invalid
  one. When the addition does not overflow, \<open>Add\<close> sets \<open>Valid\<close>, so adding to an invalid
  Currency gives a valid one.
\<close>

theorem Sub_keeps_Valid_Add_sets_Valid:
  "(- (2 ^ 63) \<le> sint (m c) - sint (m d) \<and> sint (m c) - sint (m d) < 2 ^ 63 \<longrightarrow>
      Sub E c d = Returns (c\<lparr>m := m c - m d\<rparr>) [] \<and>
      Valid (c\<lparr>m := m c - m d\<rparr>) = Valid c) \<and>
   (- (2 ^ 63) \<le> sint (m c) + sint (m d) \<and> sint (m c) + sint (m d) < 2 ^ 63 \<longrightarrow>
      Add E c d = Returns (c\<lparr>m := m c + m d, Valid := True\<rparr>) [] \<and>
      Valid (c\<lparr>m := m c + m d, Valid := True\<rparr>))"
  by (simp add: Add_in_range Sub_in_range)

theorem Sub_keeps_Valid_Add_sets_Valid_witness:
  "\<not> Valid (default_Currency example_env) \<and>
   - (2 ^ 63) \<le> sint (m (default_Currency example_env)) - sint (m (Set (default_Currency example_env) 3)) \<and>
   sint (m (default_Currency example_env)) - sint (m (Set (default_Currency example_env) 3)) < 2 ^ 63 \<and>
   - (2 ^ 63) \<le> sint (m (default_Currency example_env)) + sint (m (Set (default_Currency example_env) 3)) \<and>
   sint (m (default_Currency example_env)) + sint (m (Set (default_Currency example_env) 3)) < 2 ^ 63 \<and>
   Sub example_env (default_Currency example_env) (Set (default_Currency example_env) 3)
     = Returns ((default_Currency example_env)\<lparr>m := - 3\<rparr>) [] \<and>
   \<not> Valid ((default_Currency example_env)\<lparr>m := - 3\<rparr>) \<and>
   Add example_env (default_Currency example_env) (Set (default_Currency example_env) 3)
     = Returns ((default_Currency example_env)\<lparr>m := 3, Valid := True\<rparr>) [] \<and>
   Valid ((default_Currency example_env)\<lparr>m := 3, Valid := True\<rparr>)"
  using Sub_keeps_Valid_Add_sets_Valid [of "default_Currency example_env"
      "Set (default_Currency example_env) 3" example_env]
  by (simp add: Set_def default_Currency_def)

text \<open>
  C8, as amended. \<open>Dec()\<close> is \<open>c.Abs().Raw() % c.dp\<close>. For every Currency whose \<open>dp\<close> is not
  zero and whose amount is not \<open>math.MinInt64\<close>, this is the remainder of the absolute value
  of the amount by \<open>dp\<close>, and it is not negative. The claim as stated, for every amount and
  every Currency, fails twice: at \<open>math.MinInt64\<close> \<open>Abs\<close> returns \<open>math.MinInt64\<close> and the
  remainder is negative (\<open>-8\<close> at \<open>dp = 100\<close>), and with \<open>dp = 0\<close>, as in \<open>Currency{}\<close>, the
  remainder is a division by zero.
\<close>

theorem Dec_remainder_of_Abs:
  assumes "dp c \<noteq> 0" and "m c \<noteq> MinInt64"
  shows "\<exists>r. Dec c = Inr r \<and> go_rem (Raw (Abs c)) (dp c) = Inr r \<and>
             sint r = \<bar>sint (m c)\<bar> smod sint (dp c) \<and>
             sint r = \<bar>sint (m c)\<bar> mod \<bar>sint (dp c)\<bar> \<and> 0 \<le> sint r"
proof -
  let ?a = "\<bar>sint (m c)\<bar>" and ?b = "\<bar>sint (dp c)\<bar>"
  from assms(1) have "sint (dp c) \<noteq> 0" by (simp add: signed_eq_0_iff)
  then have b: "0 < ?b" by simp
  have "?b \<le> 2 ^ 63" using sint_bounds64 [of "dp c"] by linarith
  from b have "?a mod ?b < ?b" by (rule pos_mod_bound)
  with \<open>?b \<le> 2 ^ 63\<close> have "?a mod ?b < 2 ^ 63" by linarith
  moreover from b have "0 \<le> ?a mod ?b" by simp
  ultimately have r: "0 \<le> ?a mod ?b" "?a mod ?b < 2 ^ 63" by simp_all
  have sm: "?a smod sint (dp c) = ?a mod ?b" by (simp add: smod_nonneg)
  have "sint (word_of_int (?a mod ?b) :: int64) = ?a mod ?b"
    using r by (simp add: sint_word_ariths stb_self signed_of_int)
  with r sm assms show ?thesis
    by (simp add: Dec_def go_rem_def sint_Raw_Abs)
qed

theorem Dec_remainder_of_Abs_witness:
  "dp (Set (default_Currency example_env) (- 123456)) \<noteq> 0 \<and>
   m (Set (default_Currency example_env) (- 123456)) \<noteq> MinInt64 \<and>
   Dec (Set (default_Currency example_env) (- 123456)) = Inr 3456"
  using Dec_remainder_of_Abs [of "Set (default_Currency example_env) (- 123456)"]
  by (auto simp add: Set_def default_Currency_def example_env_def MinInt64_def
      signed_modulo_int_def word_eq_iff_signed [where ?'a = int])

theorem Dec_negative_at_MinInt64:
  "Dec (Set example_Currency MinInt64) = Inr (- 8) \<and> sint (- 8 :: int64) = - 8 \<and>
   Raw (Abs (Set example_Currency MinInt64)) = MinInt64 \<and>
   Dec zero_Currency = Inl DivideByZero"
  by code_simp

text \<open>
  C3, as amended. \<open>rnd\<close> returns \<open>r + 1\<close> when the remainder is \<open>0.5\<close> or more, \<open>r - 1\<close> when
  it is less than \<open>-0.5\<close>, and \<open>r\<close> otherwise: at \<open>-0.5\<close> itself, and for NaN, \<open>r\<close> is
  returned unchanged. The source compares with \<open>trunc < RoundToN\<close> and its comment says
  "rounded half towards plus infinity"; the claim's \<open>t <= -0.5\<close> fails at \<open>t = -0.5\<close>. The
  sums are those of \<open>int64\<close> and wrap around.
\<close>

theorem rnd_cases:
  "rnd r NaN = r \<and> rnd r (Inf s) = (if s then r - 1 else r + 1) \<and>
   rnd r (Finite q) = (if 1 / 2 \<le> q then r + 1 else if q < - (1 / 2) then r - 1 else r)"
  by (simp add: rnd_def RoundTo_val RoundToN_val)

theorem rnd_at_minus_half: "rnd 7 (Finite (- (1 / 2))) = 7 \<and> (7 :: int64) \<noteq> 7 - 1"
  by (simp add: rnd_def RoundTo_val RoundToN_val)

text \<open>
  C6. At precision 2 (\<open>dp = 100\<close>), the method \<open>Swedish\<close> takes the raw amount 45 to 40 with
  \<open>Interval015\<close>, which first lowers an amount divisible by 5 by one, and to 50 with
  \<open>Interval010\<close>; \<open>Interval010\<close> takes 43 to 40 and 46 to 50. This holds in every
  environment and whatever the other fields are.
\<close>

theorem Swedish_table_at_precision_2:
  assumes "dp c = 100" and "dpf c = Finite 100"
  shows "(m c = 45 \<and> Interval c = Interval015 \<longrightarrow>
            Currency_Swedish E c [] = Returns (c\<lparr>m := 40, Valid := True\<rparr>) []) \<and>
         (m c = 45 \<and> Interval c = Interval010 \<longrightarrow>
            Currency_Swedish E c [] = Returns (c\<lparr>m := 50, Valid := True\<rparr>) []) \<and>
         (m c = 43 \<and> Interval c = Interval010 \<longrightarrow>
            Currency_Swedish E c [] = Returns (c\<lparr>m := 40, Valid := True\<rparr>) []) \<and>
         (m c = 46 \<and> Interval c = Interval010 \<longrightarrow>
            Currency_Swedish E c [] = Returns (c\<lparr>m := 50, Valid := True\<rparr>) [])"
  using assms
  by (cases c)
     (simp add: Swedish_45_Interval015 Swedish_45_Interval010 Swedish_43_Interval010
        Swedish_46_Interval010)

theorem Swedish_table_at_precision_2_witness:
  "dp example_Currency = 100 \<and> dpf example_Currency = Finite 100 \<and>
   Currency_Swedish example_env (Set (example_Currency\<lparr>Interval := Interval015\<rparr>) 45) []
     = Returns (Set (example_Currency\<lparr>Interval := Interval015\<rparr>) 40) [] \<and>
   Currency_Swedish example_env (Set (example_Currency\<lparr>Interval := Interval010\<rparr>) 45) []
     = Returns (Set (example_Currency\<lparr>Interval := Interval010\<rparr>) 50) [] \<and>
   Currency_Swedish example_env (Set (example_Currency\<lparr>Interval := Interval010\<rparr>) 43) []
     = Returns (Set (example_Currency\<lparr>Interval := Interval010\<rparr>) 40) [] \<and>
   Currency_Swedish example_env (Set (example_Currency\<lparr>Interval := Interval010\<rparr>) 46) []
     = Returns (Set (example_Currency\<lparr>Interval := Interval010\<rparr>) 50) []"
  using Swedish_table_at_precision_2
      [of "Set (example_Currency\<lparr>Interval := Interval015\<rparr>) 45" example_env]
    Swedish_table_at_precision_2
      [of "Set (example_Currency\<lparr>Interval := Interval010\<rparr>) 45" example_env]
    Swedish_table_at_precision_2
      [of "Set (example_Currency\<lparr>Interval := Interval010\<rparr>) 43" example_env]
    Swedish_table_at_precision_2
      [of "Set (example_Currency\<lparr>Interval := Interval010\<rparr>) 46" example_env]
  by (simp add: Set_def example_Currency_def Interval010_def Interval015_def)

text \<open>
  C7, as amended. The guard of a Currency is never zero after \<open>New\<close> with any options
  built by the six functions, nor after a later call of \<open>Option\<close> with such options, whose
  returned inverse is such an option again, given that the package default is not zero:
  \<open>Guard\<close> replaces 0 by 1 and stores every other number as it is given, a negative one
  too. So the guard is not always positive, as the claim has it: \<open>New(Guard(-1))\<close> has the
  guard \<open>-1\<close>.
\<close>

theorem guard_never_zero:
  assumes "pkg_guard E \<noteq> 0"
    and "list_all guard_ok_entry opts" and "New E opts = Returns c l"
    and "list_all guard_ok_entry later" and "Option E c later = Returns (c', previous) l'"
  shows "guard c \<noteq> 0 \<and> guard c' \<noteq> 0 \<and> guard_ok_entry previous \<and>
         guard_ok (Guard g) \<and> Guard g = GuardFn (if g = 0 then 1 else g)"
proof -
  have sets: "\<forall>f. Some f \<in> set xs \<longrightarrow> guard_ok f" if "list_all guard_ok_entry xs" for xs
    using that by (auto simp: list_all_iff dest: bspec)
  from assms(3) obtain p k where
    "Option_loop E (default_Currency E) None opts = Returns (c, p) k"
    by (cases "Option_loop E (default_Currency E) None opts")
       (auto simp: New_def Option_def split: outcome.splits prod.splits)
  moreover have "guard (default_Currency E) \<noteq> 0"
    using assms(1) by (simp add: default_Currency_def)
  ultimately have c: "guard c \<noteq> 0"
    using Option_loop_guard [of "default_Currency E" opts None E c p k] sets [OF assms(2)]
    by simp
  from assms(5) have "Option_loop E c None later = Returns (c', previous) l'"
    by (simp add: Option_def)
  with c have "guard c' \<noteq> 0 \<and> (\<forall>f. previous = Some f \<longrightarrow> guard_ok f)"
    using Option_loop_guard [of c later None E c' previous l'] sets [OF assms(4)] by simp
  then have "guard c' \<noteq> 0" and "guard_ok_entry previous"
    by (cases previous; simp)+
  with c show ?thesis by (simp add: guard_ok_Guard) (simp add: Guard_def)
qed

theorem guard_never_zero_witness:
  "pkg_guard example_env \<noteq> 0 \<and>
   list_all guard_ok_entry [Some (Guard 0), None, Some (Guard (- 7))] \<and>
   New example_env [Some (Guard 0), None, Some (Guard (- 7))]
     = Returns ((default_Currency example_env)\<lparr>guard := - 7, guardf := Finite (- 7)\<rparr>) [] \<and>
   list_all guard_ok_entry [Some (Guard 0)] \<and>
   Option example_env ((default_Currency example_env)\<lparr>guard := - 7, guardf := Finite (- 7)\<rparr>)
       [Some (Guard 0)]
     = Returns ((default_Currency example_env)\<lparr>guard := 1, guardf := Finite 1\<rparr>,
                Some (GuardFn (- 7))) [] \<and>
   guard ((default_Currency example_env)\<lparr>guard := - 7, guardf := Finite (- 7)\<rparr>) \<noteq> 0 \<and>
   guard ((default_Currency example_env)\<lparr>guard := 1, guardf := Finite 1\<rparr>) \<noteq> 0 \<and>
   guard_ok_entry (Some (GuardFn (- 7)))"
proof -
  have ev: "New example_env [Some (Guard 0), None, Some (Guard (- 7))]
     = Returns ((default_Currency example_env)\<lparr>guard := - 7, guardf := Finite (- 7)\<rparr>) []"
    by code_simp
  have ev': "Option example_env
       ((default_Currency example_env)\<lparr>guard := - 7, guardf := Finite (- 7)\<rparr>) [Some (Guard 0)]
     = Returns ((default_Currency example_env)\<lparr>guard := 1, guardf := Finite 1\<rparr>,
                Some (GuardFn (- 7))) []"
    by code_simp
  have h1: "pkg_guard example_env \<noteq> 0" by (simp add: example_env_def)
  have h2: "list_all guard_ok_entry [Some (Guard 0), None, Some (Guard (- 7))]"
    by (simp add: Guard_def)
  have h3: "list_all guard_ok_entry [Some (Guard 0)]"
    by (simp add: Guard_def)
  from guard_never_zero [OF h1 h2 ev h3 ev'] h1 h2 h3 ev ev' show ?thesis by simp
qed

theorem Guard_stores_negative:
  "New example_env [Some (Guard (- 1))]
     = Returns ((default_Currency example_env)\<lparr>guard := - 1, guardf := Finite (- 1)\<rparr>) [] \<and>
   sint (guard ((default_Currency example_env)\<lparr>guard := - 1, guardf := Finite (- 1)\<rparr>)) = - 1"
  by code_simp

text \<open>
  C4, as amended. For each of the six options: when the field that the option sets holds a
  value that the function building the option leaves as it is (an interval below
  \<open>interval999\<close>, a guard other than 0, a \<open>dp\<close> that \<open>Precision\<close> would store as given, a
  formatter, marshaller or unmarshaller other than nil), applying the option and then the
  \<open>OptionFunc\<close> it returned brings the field back to that value. For every Currency value,
  as the claim has it, this fails: the inverse is built by the same function, which
  normalises the previous value. An \<open>Interval\<close> of 200, assigned to the exported field,
  comes back as \<open>Interval000\<close>; the zero guard and \<open>dp\<close> of \<open>Currency{}\<close> come back as 1, its
  nil marshaller and unmarshaller as the default codecs, and undoing \<open>Format\<close> on its nil
  formatter ends the process.
\<close>

theorem option_undo_restores:
  "(Interval c < interval999 \<longrightarrow>
      (\<exists>f l c' p l'. Swedish i = Returns f l \<and>
         apply_then_undo E f c = Returns (c', p) l' \<and> Interval c' = Interval c)) \<and>
   (guard c \<noteq> 0 \<longrightarrow>
      (\<exists>c' p l'. apply_then_undo E (Guard g) c = Returns (c', p) l' \<and> guard c' = guard c)) \<and>
   (Precision_p64 E (dp c) = dp c \<longrightarrow>
      (\<exists>c' p l'. apply_then_undo E (Precision E q) c = Returns (c', p) l' \<and> dp c' = dp c)) \<and>
   (fmt c \<noteq> None \<and> fm \<noteq> None \<longrightarrow>
      (\<exists>f c' p l'. Format fm = Returns f [] \<and>
         apply_then_undo E f c = Returns (c', p) l' \<and> fmt c' = fmt c)) \<and>
   (jm c \<noteq> None \<longrightarrow>
      (\<exists>c' p l'. apply_then_undo E (JSONMarshal E jx) c = Returns (c', p) l' \<and> jm c' = jm c)) \<and>
   (jum c \<noteq> None \<longrightarrow>
      (\<exists>c' p l'. apply_then_undo E (JSONUnmarshal E jy) c = Returns (c', p) l' \<and> jum c' = jum c))"
proof (intro conjI impI)
  assume "Interval c < interval999"
  then show "\<exists>f l c' p l'. Swedish i = Returns f l \<and>
         apply_then_undo E f c = Returns (c', p) l' \<and> Interval c' = Interval c"
    by (auto simp: apply_then_undo_def Option_single Swedish_def Let_def not_le [symmetric])
next
  assume "guard c \<noteq> 0"
  then show "\<exists>c' p l'. apply_then_undo E (Guard g) c = Returns (c', p) l' \<and> guard c' = guard c"
    by (simp add: apply_then_undo_def Option_single Guard_def Let_def)
next
  assume "Precision_p64 E (dp c) = dp c"
  then show "\<exists>c' p l'. apply_then_undo E (Precision E q) c = Returns (c', p) l' \<and> dp c' = dp c"
    by (simp add: apply_then_undo_def Option_single Precision_def Let_def)
next
  assume "fmt c \<noteq> None \<and> fm \<noteq> None"
  then show "\<exists>f c' p l'. Format fm = Returns f [] \<and>
         apply_then_undo E f c = Returns (c', p) l' \<and> fmt c' = fmt c"
    by (auto simp: apply_then_undo_def Option_single Format_def Let_def)
next
  assume "jm c \<noteq> None"
  then show "\<exists>c' p l'. apply_then_undo E (JSONMarshal E jx) c = Returns (c', p) l' \<and> jm c' = jm c"
    by (auto simp: apply_then_undo_def Option_single JSONMarshal_def Let_def)
next
  assume "jum c \<noteq> None"
  then show "\<exists>c' p l'. apply_then_undo E (JSONUnmarshal E jy) c = Returns (c', p) l' \<and> jum c' = jum c"
    by (auto simp: apply_then_undo_def Option_single JSONUnmarshal_def Let_def)
qed

theorem option_undo_restores_witness:
  "Interval example_Currency < interval999 \<and> guard example_Currency \<noteq> 0 \<and>
   Precision_p64 example_env (dp example_Currency) = dp example_Currency \<and>
   fmt example_Currency \<noteq> None \<and> jm example_Currency \<noteq> None \<and> jum example_Currency \<noteq> None \<and>
   Swedish Interval005 = Returns (SwedishFn Interval005) [] \<and>
   apply_then_undo example_env (SwedishFn Interval005) example_Currency
     = Returns (example_Currency, Some (SwedishFn Interval005)) [] \<and>
   apply_then_undo example_env (Guard 5) example_Currency
     = Returns (example_Currency, Some (GuardFn 5)) [] \<and>
   apply_then_undo example_env (Precision example_env 2) example_Currency
     = Returns (example_Currency, Some (PrecisionFn 2)) [] \<and>
   Format (Some 7) = Returns (FormatFn (Some 7)) [] \<and>
   apply_then_undo example_env (FormatFn (Some 7)) example_Currency
     = Returns (example_Currency, Some (FormatFn (Some 7))) [] \<and>
   apply_then_undo example_env (JSONMarshal example_env (Some 7)) example_Currency
     = Returns (example_Currency, Some (JSONMarshalFn (Some 7))) [] \<and>
   apply_then_undo example_env (JSONUnmarshal example_env (Some 7)) example_Currency
     = Returns (example_Currency, Some (JSONUnmarshalFn (Some 7))) []"
proof -
  have ev: "apply_then_undo example_env (SwedishFn Interval005) example_Currency
     = Returns (example_Currency, Some (SwedishFn Interval005)) [] \<and>
   apply_then_undo example_env (Guard 5) example_Currency
     = Returns (example_Currency, Some (GuardFn 5)) [] \<and>
   apply_then_undo example_env (Precision example_env 2) example_Currency
     = Returns (example_Currency, Some (PrecisionFn 2)) [] \<and>
   apply_then_undo example_env (FormatFn (Some 7)) example_Currency
     = Returns (example_Currency, Some (FormatFn (Some 7))) [] \<and>
   apply_then_undo example_env (JSONMarshal example_env (Some 7)) example_Currency
     = Returns (example_Currency, Some (JSONMarshalFn (Some 7))) [] \<and>
   apply_then_undo example_env (JSONUnmarshal example_env (Some 7)) example_Currency
     = Returns (example_Currency, Some (JSONUnmarshalFn (Some 7))) []"
    by code_simp
  have hy: "Interval example_Currency < interval999 \<and> guard example_Currency \<noteq> 0 \<and>
   Precision_p64 example_env (dp example_Currency) = dp example_Currency \<and>
   fmt example_Currency \<noteq> None \<and> jm example_Currency \<noteq> None \<and> jum example_Currency \<noteq> None \<and>
   Swedish Interval005 = Returns (SwedishFn Interval005) [] \<and>
   Format (Some 7) = Returns (FormatFn (Some 7)) []"
    by code_simp
  from option_undo_restores [where c = example_Currency and E = example_env and i = Interval005
      and g = 5 and q = 2 and fm = "Some 7" and jx = "Some 7" and jy = "Some 7"] ev hy
  show ?thesis by simp
qed

theorem option_undo_changes_field:
  "apply_then_undo example_env (SwedishFn Interval005) ((default_Currency example_env)\<lparr>Interval := 200\<rparr>)
     = Returns ((default_Currency example_env)\<lparr>Interval := Interval000\<rparr>, Some (SwedishFn Interval005))
         [Error ''Currency=SetSwedishRounding''] \<and>
   Swedish Interval005 = Returns (SwedishFn Interval005) [] \<and>
   apply_then_undo example_env (Guard 5) zero_Currency
     = Returns (zero_Currency\<lparr>guard := 1, guardf := Finite 1\<rparr>, Some (GuardFn 5)) [] \<and>
   apply_then_undo example_env (Precision example_env 100) zero_Currency
     = Returns (zero_Currency\<lparr>dp := 1, dpf := Finite 1\<rparr>, Some (PrecisionFn 100)) [] \<and>
   Format (Some 7) = Returns (FormatFn (Some 7)) [] \<and>
   apply_then_undo example_env (FormatFn (Some 7)) zero_Currency = Exits [Fatal ''money=Format''] \<and>
   apply_then_undo example_env (JSONMarshal example_env (Some 7)) zero_Currency
     = Returns (zero_Currency\<lparr>jm := NewJSONEncoder example_env\<rparr>, Some (JSONMarshalFn (Some 7))) [] \<and>
   apply_then_undo example_env (JSONUnmarshal example_env (Some 7)) zero_Currency
     = Returns (zero_Currency\<lparr>jum := NewJSONDecoder example_env\<rparr>, Some (JSONUnmarshalFn (Some 7))) []"
  by code_simp

text \<open>
  C5. \<open>Precision\<close> keeps \<open>p\<close> when the natural logarithm of \<open>p\<close>, without its fraction, is
  even, and not when \<open>p\<close> is a power of ten: \<open>Precision(2)\<close> stores 2, since
  \<open>int64(math.Log(2))\<close> is 0 (lemma \<open>Precision_keeps_small_Log\<close>), where the comment of the
  function and the claim promise the package default, here 10000.
\<close>

theorem Precision_installs_2:
  "New example_env [Some (Precision example_env 2)]
     = Returns ((default_Currency example_env)\<lparr>dp := 2, dpf := Finite 2\<rparr>) [] \<and>
   pkg_dp example_env = 10000"
  by code_simp

end
